theory Spec2Isabelle
  imports Main "HOL-Library.Sublist"
begin

section \<open>Values of the Python program\<close>

text \<open>
  A Python \<open>str\<close> is a sequence of Unicode code points, and \<open>len\<close> counts code points.
  The dirty marker of a tab title is U+2022, which is no 8-bit character, so strings are
  lists of code points; \<open>ascii\<close> writes an ASCII literal.
\<close>

type_synonym str = "nat list"

definition ascii :: "string \<Rightarrow> str" where
  "ascii s = map of_char s"

text \<open>
  What \<open>json.loads\<close> can return: \<open>None\<close>, \<open>bool\<close>, \<open>int\<close>, \<open>float\<close>, \<open>str\<close>,
  \<open>list\<close> and \<open>dict\<close> with string keys (in insertion order). The program never computes
  with a float, so its payload is left opaque.
\<close>

typedecl double

datatype pyval =
    PNone
  | PBool bool
  | PInt int
  | PFloat double
  | PStr str
  | PList "pyval list"
  | PDict "(str \<times> pyval) list"

text \<open>
  Exceptions (all of them subclasses of \<open>Exception\<close>, which is what the \<open>except\<close> clauses of
  the program catch). A function that can raise returns \<open>py_error + 'a\<close>.
\<close>

datatype py_error =
    FileNotFoundError
  | PermissionError
  | IsADirectoryError
  | OSError
  | UnicodeDecodeError
  | JSONDecodeError
  | AttributeError
  | TypeError

section \<open>Settings: \<open>AppState\<close>, \<open>load_state\<close>, \<open>save_state\<close>\<close>

text \<open>
  The dataclass \<open>AppState\<close>. Python does not enforce the annotations \<open>bool\<close>, \<open>str\<close> and
  \<open>int\<close>, so the three scalar fields hold whatever value was assigned to them. The type
  parameter is what \<open>recent_files\<close> holds: any value while \<open>load_state\<close> copies the file's
  items into the object, a list of strings once \<open>load_state\<close> has filtered it (and in every
  state the window keeps).
\<close>

record 'r AppState =
  recent_files :: 'r
  word_wrap :: pyval
  font_family :: pyval
  font_size :: pyval

definition defaults :: "str list AppState" where
  "defaults =
     \<lparr>recent_files = [],
      word_wrap = PBool True,
      font_family = PStr (ascii ''Segoe UI''),
      font_size = PInt 12\<rparr>"

text \<open>The file \<open>~/.notepy_settings.json\<close> as \<open>load_state\<close> sees it: \<open>exists()\<close> is false, or
  \<open>read_text\<close> raises, or \<open>read_text\<close> returns the text.\<close>

datatype settings_file = Missing | Unreadable py_error | Content str

text \<open>
  \<open>hasattr(s, k)\<close> followed by \<open>setattr(s, k, v)\<close> for a name \<open>k\<close> that is none of the four
  fields is answered by the interpreter from the class (\<open>defaults\<close>, \<open>__eq__\<close>,
  \<open>__class__\<close>, ...), not by the program: the name is no attribute, or the value is stored
  under it on the instance beside the four fields, or the assignment raises. It is a
  parameter \<open>other\<close> of the model.
\<close>

datatype attr_outcome = NoSuchAttr | InstanceAttr | SetRaises py_error

definition set_item :: "(str \<Rightarrow> pyval \<Rightarrow> attr_outcome) \<Rightarrow> pyval AppState \<Rightarrow> str \<Rightarrow> pyval
    \<Rightarrow> py_error + pyval AppState" where
  "set_item other s k v =
     (if k = ascii ''recent_files'' then Inr (s\<lparr>recent_files := v\<rparr>)
      else if k = ascii ''word_wrap'' then Inr (s\<lparr>word_wrap := v\<rparr>)
      else if k = ascii ''font_family'' then Inr (s\<lparr>font_family := v\<rparr>)
      else if k = ascii ''font_size'' then Inr (s\<lparr>font_size := v\<rparr>)
      else (case other k v of
              NoSuchAttr \<Rightarrow> Inr s
            | InstanceAttr \<Rightarrow> Inr s
            | SetRaises e \<Rightarrow> Inl e))"

text \<open>The loop \<open>for k, v in data.items(): if hasattr(s, k): setattr(s, k, v)\<close>.\<close>

fun load_items :: "(str \<Rightarrow> pyval \<Rightarrow> attr_outcome) \<Rightarrow> (str \<times> pyval) list \<Rightarrow> pyval AppState
    \<Rightarrow> py_error + pyval AppState" where
  "load_items other [] s = Inr s"
| "load_items other ((k, v) # kvs) s =
     (case set_item other s k v of
        Inl e \<Rightarrow> Inl e
      | Inr s' \<Rightarrow> load_items other kvs s')"

text \<open>\<open>data.items()\<close>: only a \<open>dict\<close> has the method.\<close>

definition items :: "pyval \<Rightarrow> py_error + (str \<times> pyval) list" where
  "items data = (case data of PDict kvs \<Rightarrow> Inr kvs | _ \<Rightarrow> Inl AttributeError)"

text \<open>\<open>[p for p in xs if isinstance(p, str)]\<close>\<close>

fun str_entries :: "pyval list \<Rightarrow> str list" where
  "str_entries [] = []"
| "str_entries (PStr p # xs) = p # str_entries xs"
| "str_entries (_ # xs) = str_entries xs"

text \<open>The object \<open>AppState.defaults()\<close> before the loop, and the two statements after it.\<close>

definition fresh_object :: "pyval AppState" where
  "fresh_object =
     \<lparr>recent_files = PList (map PStr (recent_files defaults)),
      word_wrap = word_wrap defaults,
      font_family = font_family defaults,
      font_size = font_size defaults\<rparr>"

definition clean_recent :: "pyval AppState \<Rightarrow> str list AppState" where
  "clean_recent s =
     (let rf = (case recent_files s of PList xs \<Rightarrow> xs | _ \<Rightarrow> [])
      in \<lparr>recent_files = str_entries rf,
          word_wrap = word_wrap s,
          font_family = font_family s,
          font_size = font_size s\<rparr>)"

text \<open>
  The body of the \<open>try\<close> block of \<open>load_state\<close>: \<open>Inl e\<close> when it raises \<open>e\<close>, \<open>Inr None\<close>
  when the \<open>if\<close> is not taken, \<open>Inr (Some s)\<close> when it returns \<open>s\<close>. \<open>json.loads\<close> is the
  parameter \<open>loads\<close>.
\<close>

definition load_state_try :: "(str \<Rightarrow> py_error + pyval) \<Rightarrow> (str \<Rightarrow> pyval \<Rightarrow> attr_outcome)
    \<Rightarrow> settings_file \<Rightarrow> py_error + str list AppState option" where
  "load_state_try loads other f =
     (case f of
        Missing \<Rightarrow> Inr None
      | Unreadable e \<Rightarrow> Inl e
      | Content txt \<Rightarrow>
          (case loads txt of
             Inl e \<Rightarrow> Inl e
           | Inr data \<Rightarrow>
               (case items data of
                  Inl e \<Rightarrow> Inl e
                | Inr kvs \<Rightarrow>
                    (case load_items other kvs fresh_object of
                       Inl e \<Rightarrow> Inl e
                     | Inr s \<Rightarrow> Inr (Some (clean_recent s))))))"

text \<open>\<open>load_state\<close>: \<open>except Exception: pass\<close>, then \<open>return AppState.defaults()\<close>.\<close>

definition load_state :: "(str \<Rightarrow> py_error + pyval) \<Rightarrow> (str \<Rightarrow> pyval \<Rightarrow> attr_outcome)
    \<Rightarrow> settings_file \<Rightarrow> py_error + str list AppState" where
  "load_state loads other f =
     (case load_state_try loads other f of
        Inr (Some s) \<Rightarrow> Inr s
      | Inr None \<Rightarrow> Inr defaults
      | Inl e \<Rightarrow> Inr defaults)"

text \<open>\<open>state.__dict__\<close> of an object with the four fields.\<close>

definition state_dict :: "str list AppState \<Rightarrow> pyval" where
  "state_dict st =
     PDict [(ascii ''recent_files'', PList (map PStr (recent_files st))),
            (ascii ''word_wrap'', word_wrap st),
            (ascii ''font_family'', font_family st),
            (ascii ''font_size'', font_size st)]"

text \<open>
  \<open>save_state\<close>. \<open>json.dumps\<close> is the parameter \<open>dumps\<close>; \<open>write_text\<close> is the write backend:
  given the text and the file, it returns the exception it raises (if any) and the file it
  leaves behind. The result is the exception \<open>save_state\<close> lets through and the file.
\<close>

definition save_state :: "(pyval \<Rightarrow> py_error + str)
    \<Rightarrow> (str \<Rightarrow> settings_file \<Rightarrow> py_error option \<times> settings_file)
    \<Rightarrow> str list AppState \<Rightarrow> settings_file \<Rightarrow> py_error option \<times> settings_file" where
  "save_state dumps write_text st f =
     (case dumps (state_dict st) of
        Inl e \<Rightarrow> (None, f)
      | Inr txt \<Rightarrow>
          (case write_text txt f of
             (Some e, f') \<Rightarrow> (None, f')
           | (None, f') \<Rightarrow> (None, f')))"

text \<open>\<open>elide_middle\<close>, with Python's slices \<open>xs[:i]\<close> and \<open>xs[i:]\<close> (a negative index counts
  from the end, and both clamp to the list).\<close>

definition slice_to :: "'a list \<Rightarrow> int \<Rightarrow> 'a list" where
  "slice_to xs i = (if i < 0 then take (nat (int (length xs) + i)) xs else take (nat i) xs)"

definition slice_from :: "'a list \<Rightarrow> int \<Rightarrow> 'a list" where
  "slice_from xs i = (if i < 0 then drop (nat (int (length xs) + i)) xs else drop (nat i) xs)"

definition elide_middle :: "str \<Rightarrow> int \<Rightarrow> str" where
  "elide_middle path max_len =
     (if int (length path) \<le> max_len then path
      else let head = max_len div 2 - 2;
               tail = max_len - head - 3
           in slice_to path head @ ascii ''...'' @ slice_from path (- tail))"

section \<open>Recent files\<close>

text \<open>
  \<open>MainWindow._add_recent\<close>, on the window's \<open>AppState\<close> and the settings file.
  \<open>str(Path(path).resolve())\<close> depends on the file system (working directory, links) and is
  the parameter \<open>resolve\<close>. \<open>list.remove\<close> deletes the first occurrence only. Rebuilding
  the menu changes neither the state nor the file.
\<close>

definition add_recent :: "(str \<Rightarrow> str) \<Rightarrow> (pyval \<Rightarrow> py_error + str)
    \<Rightarrow> (str \<Rightarrow> settings_file \<Rightarrow> py_error option \<times> settings_file)
    \<Rightarrow> str \<Rightarrow> str list AppState \<times> settings_file \<Rightarrow> str list AppState \<times> settings_file" where
  "add_recent resolve dumps write_text path w =
     (let st = fst w;
          p = resolve path;
          rf1 = (if p \<in> set (recent_files st) then remove1 p (recent_files st)
                 else recent_files st);
          rf2 = p # rf1;
          st' = st\<lparr>recent_files := take 10 rf2\<rparr>
      in (st', snd (save_state dumps write_text st' (snd w))))"

text \<open>
  \<open>MainWindow._open_recent\<close>, as far as the state and the settings file go.
  \<open>Path(path).exists()\<close> is the parameter \<open>exists\<close>. When the file exists the method opens
  a tab and loads the file into it, which touches neither the state nor the settings file.
\<close>

definition open_recent :: "(str \<Rightarrow> bool) \<Rightarrow> (pyval \<Rightarrow> py_error + str)
    \<Rightarrow> (str \<Rightarrow> settings_file \<Rightarrow> py_error option \<times> settings_file)
    \<Rightarrow> str \<Rightarrow> str list AppState \<times> settings_file \<Rightarrow> str list AppState \<times> settings_file" where
  "open_recent exists dumps write_text path w =
     (if \<not> exists path then
        (let st' = (fst w)\<lparr>recent_files := filter (\<lambda>p. p \<noteq> path) (recent_files (fst w))\<rparr>
         in (st', snd (save_state dumps write_text st' (snd w))))
      else w)"

section \<open>Document tabs\<close>

text \<open>
  What a \<open>DocumentTab\<close> holds: \<open>self.path\<close>, and of its Qt editor the text
  (\<open>toPlainText()\<close>) and the document's modified flag (\<open>document().isModified()\<close>).
\<close>

record DocumentTab =
  path :: "str option"
  editor_text :: str
  modified :: bool

text \<open>\<open>DocumentTab.__init__\<close>: no path, and a new editor, which is empty and unmodified.\<close>

definition init_tab :: DocumentTab where
  "init_tab = \<lparr>path = None, editor_text = [], modified = False\<rparr>"

definition is_dirty :: "DocumentTab \<Rightarrow> bool" where
  "is_dirty tab = modified tab"

text \<open>
  Modelled from the spec: \<open>os.path.basename\<close> is the standard library's, not the
  repository's; "base name extraction strips any directory components", that is, it keeps
  what follows the last \<open>/\<close> (code point 47), as \<open>posixpath.basename\<close> does.
\<close>

definition basename :: "str \<Rightarrow> str" where
  "basename p = rev (takeWhile (\<lambda>c. c \<noteq> 47) (rev p))"

text \<open>
  \<open>DocumentTab.title\<close>. \<open>if self.path\<close> is false for \<open>None\<close> and for the empty string.
  The marker is a space (32) and the bullet U+2022 (8226).
\<close>

definition title :: "DocumentTab \<Rightarrow> str" where
  "title tab =
     (let name = (case path tab of
                    None \<Rightarrow> ascii ''Untitled''
                  | Some p \<Rightarrow> if p = [] then ascii ''Untitled'' else basename p)
      in name @ (if is_dirty tab then [32, 8226] else []))"

text \<open>
  \<open>DocumentTab.load_file\<close> and \<open>DocumentTab.save_to\<close>: the exception raised (if any) and
  the tab as the call leaves it. \<open>Path(path).read_text\<close> and \<open>Path(path).write_text\<close> are
  the parameters \<open>read_text\<close> and \<open>write_text\<close>; the statements after them cannot raise.
\<close>

definition load_file :: "(str \<Rightarrow> py_error + str) \<Rightarrow> str \<Rightarrow> DocumentTab
    \<Rightarrow> py_error option \<times> DocumentTab" where
  "load_file read_text p tab =
     (case read_text p of
        Inl e \<Rightarrow> (Some e, tab)
      | Inr txt \<Rightarrow>
          (let tab1 = tab\<lparr>editor_text := txt\<rparr>;
               tab2 = tab1\<lparr>path := Some p\<rparr>;
               tab3 = tab2\<lparr>modified := False\<rparr>
           in (None, tab3)))"

definition save_to :: "(str \<Rightarrow> str \<Rightarrow> py_error option) \<Rightarrow> str \<Rightarrow> DocumentTab
    \<Rightarrow> py_error option \<times> DocumentTab" where
  "save_to write_text p tab =
     (case write_text p (editor_text tab) of
        Some e \<Rightarrow> (Some e, tab)
      | None \<Rightarrow>
          (let tab1 = tab\<lparr>path := Some p\<rparr>;
               tab2 = tab1\<lparr>modified := False\<rparr>
           in (None, tab2)))"

text \<open>
  Modelled from the spec: \<open>onContentChanged\<close> is the Qt text widget's doing, not the
  repository's; an edit replaces the editor's text and "sets isDirty = true" (the
  document's modified flag).
\<close>

definition on_content_changed :: "str \<Rightarrow> DocumentTab \<Rightarrow> DocumentTab" where
  "on_content_changed txt tab = tab\<lparr>editor_text := txt, modified := True\<rparr>"

section \<open>Properties\<close>

subsection \<open>Eliding long paths\<close>

lemma length_slice_to:
  "0 \<le> i \<Longrightarrow> i \<le> int (length xs) \<Longrightarrow> int (length (slice_to xs i)) = i"
  by (simp add: slice_to_def)

lemma length_slice_from_neg:
  "0 < k \<Longrightarrow> k \<le> int (length xs) \<Longrightarrow> int (length (slice_from xs (- k))) = k"
  by (simp add: slice_from_def)

lemma prefix_slice_to: "prefix (slice_to xs i) xs"
  by (simp add: slice_to_def take_is_prefix)

lemma suffix_slice_from: "suffix (slice_from xs i) xs"
  by (simp add: slice_from_def suffix_drop)

text \<open>
  C10. For every string \<open>p\<close> and every \<open>max_len\<close> of at least 6, \<open>elide_middle\<close>
  returns \<open>p\<close> unchanged when it has at most \<open>max_len\<close> characters, and otherwise a
  string of exactly \<open>max_len\<close> characters made of a prefix of \<open>p\<close>, three dots and a
  suffix of \<open>p\<close>.
\<close>

theorem elide_middle_shape:
  assumes "6 \<le> max_len"
  shows "(int (length p) \<le> max_len \<longrightarrow> elide_middle p max_len = p) \<and>
         (max_len < int (length p) \<longrightarrow>
            int (length (elide_middle p max_len)) = max_len \<and>
            (\<exists>pre suf. prefix pre p \<and> suffix suf p \<and>
               elide_middle p max_len = pre @ ascii ''...'' @ suf))"
proof (intro conjI impI)
  assume "int (length p) \<le> max_len"
  then show "elide_middle p max_len = p"
    by (simp add: elide_middle_def)
next
  assume long: "max_len < int (length p)"
  then have nle: "\<not> int (length p) \<le> max_len" by simp
  define head where "head = max_len div 2 - 2"
  define tail where "tail = max_len - head - 3"
  have eq: "elide_middle p max_len = slice_to p head @ ascii ''...'' @ slice_from p (- tail)"
    unfolding elide_middle_def Let_def head_def tail_def using nle by (simp only: if_False)
  have head: "0 \<le> head" "head \<le> int (length p)"
    using assms long by (auto simp: head_def)
  have tail: "0 < tail" "tail \<le> int (length p)"
    using assms long by (auto simp: head_def tail_def)
  have "int (length (elide_middle p max_len)) =
          int (length (slice_to p head)) + 3 + int (length (slice_from p (- tail)))"
    by (simp add: eq ascii_def)
  also have "\<dots> = head + 3 + tail"
    using head tail by (simp add: length_slice_to length_slice_from_neg)
  also have "\<dots> = max_len"
    by (simp add: tail_def)
  finally show "int (length (elide_middle p max_len)) = max_len" .
  show "\<exists>pre suf. prefix pre p \<and> suffix suf p \<and>
          elide_middle p max_len = pre @ ascii ''...'' @ suf"
    using eq prefix_slice_to suffix_slice_from by blast
qed

theorem elide_middle_shape_witness:
  "(6::int) \<le> 6 \<and> elide_middle (ascii ''abcdefghij'') 6 = ascii ''a...ij'' \<and>
   int (length (elide_middle (ascii ''abcdefghij'') 6)) = 6 \<and>
   elide_middle (ascii ''abc'') 6 = ascii ''abc''"
  using elide_middle_shape [of 6 "ascii ''abcdefghij''"] elide_middle_shape [of 6 "ascii ''abc''"]
  by (simp add: elide_middle_def slice_to_def slice_from_def ascii_def)

subsection \<open>Loading and saving the settings\<close>



text \<open>
  C1, on the input where the code and the claim part. The settings file decodes to
  \<open>{"word_wrap": "yes", "font_size": 14}\<close>: \<open>word_wrap\<close> is bound to a string. The claim
  has \<open>load\<close> return the default \<open>True\<close> for \<open>word_wrap\<close> and 14 for \<open>font_size\<close>. The
  code's \<open>setattr\<close> stores the string: only \<open>recent_files\<close> is checked with
  \<open>isinstance\<close> after the loop, the three scalar fields are not.
\<close>

theorem load_state_wrong_typed_scalar:
  "load_state
     (\<lambda>t. Inr (PDict [(ascii ''word_wrap'', PStr (ascii ''yes'')),
                       (ascii ''font_size'', PInt 14)]))
     other (Content txt) =
   Inr \<lparr>recent_files = [], word_wrap = PStr (ascii ''yes''),
        font_family = PStr (ascii ''Segoe UI''), font_size = PInt 14\<rparr>"
  by (simp add: load_state_def load_state_try_def items_def set_item_def fresh_object_def
      clean_recent_def defaults_def ascii_def)





text \<open>
  C9. Whatever the write backend does (and whatever \<open>json.dumps\<close> does), \<open>save_state\<close>
  returns normally: no exception reaches its caller.
\<close>

theorem save_state_never_raises:
  "fst (save_state dumps write_text st f) = None"
  by (simp add: save_state_def split: sum.splits prod.splits option.splits)

subsection \<open>Recent files\<close>

lemma recent_files_add_recent:
  "recent_files (fst (add_recent resolve dumps write_text p0 w)) =
     take 10 (resolve p0 # remove1 (resolve p0) (recent_files (fst w)))"
  by (simp add: add_recent_def Let_def remove1_idem)

lemma add_recent_step_prefix:
  assumes "q \<notin> set rs" and "prefix (take 10 (rev rs)) rf"
  shows "prefix (take 10 (q # rev rs)) (take 10 (q # remove1 q rf))"
proof -
  from assms(2) obtain ys where rf: "rf = take 10 (rev rs) @ ys"
    by (auto simp: prefix_def)
  have "q \<notin> set (take 10 (rev rs))"
    using assms(1) by (auto dest: in_set_takeD)
  then have "remove1 q rf = take 10 (rev rs) @ remove1 q ys"
    by (simp add: rf remove1_append)
  then have "take 10 (q # remove1 q rf) =
      q # take 9 (rev rs) @ take (9 - length (take 10 (rev rs))) (remove1 q ys)"
    by (simp add: take_Cons' min_def)
  moreover have "take 10 (q # rev rs) = q # take 9 (rev rs)"
    by (simp add: take_Cons')
  ultimately show ?thesis
    by simp
qed

lemma foldl_add_recent_prefix:
  assumes "distinct (map resolve ps)"
  shows "prefix (take 10 (rev (map resolve ps)))
           (recent_files (fst (foldl (\<lambda>w p. add_recent resolve dumps write_text p w) w0 ps)))"
  using assms
proof (induction ps rule: rev_induct)
  case Nil
  show ?case by simp
next
  case (snoc p ps)
  then have "resolve p \<notin> set (map resolve ps)" and "distinct (map resolve ps)"
    by auto
  with snoc.IH show ?case
    using add_recent_step_prefix [of "resolve p" "map resolve ps"]
    by (simp add: recent_files_add_recent)
qed

lemma foldl_add_recent_length:
  "ps \<noteq> [] \<Longrightarrow>
   length (recent_files (fst (foldl (\<lambda>w p. add_recent resolve dumps write_text p w) w0 ps))) \<le> 10"
  by (induction ps rule: rev_induct) (simp_all add: recent_files_add_recent)

lemma foldl_add_recent_ten:
  assumes "distinct (map resolve ps)" and "10 \<le> length ps"
  shows "recent_files (fst (foldl (\<lambda>w p. add_recent resolve dumps write_text p w) w0 ps)) =
           take 10 (rev (map resolve ps))"
proof -
  let ?rf = "recent_files (fst (foldl (\<lambda>w p. add_recent resolve dumps write_text p w) w0 ps))"
  have "prefix (take 10 (rev (map resolve ps))) ?rf"
    by (rule foldl_add_recent_prefix [OF assms(1)])
  then obtain ys where rf: "?rf = take 10 (rev (map resolve ps)) @ ys"
    by (auto simp: prefix_def)
  have "ps \<noteq> []" using assms(2) by auto
  then have "length ?rf \<le> 10" by (rule foldl_add_recent_length)
  moreover have "length (take 10 (rev (map resolve ps))) = 10"
    using assms(2) by simp
  ultimately have "ys = []"
    using rf by (metis add_diff_cancel_left' diff_is_0_eq length_0_conv length_append)
  then show ?thesis using rf by simp
qed

lemma distinct_add_recent:
  "distinct rf \<Longrightarrow> distinct (take 10 (q # remove1 q rf))"
  by (rule distinct_take) (simp)

lemma filter_absent:
  "q \<notin> set rf \<Longrightarrow> filter (\<lambda>x. x \<noteq> q) rf = rf"
  by (induction rf) auto

lemma remove1_filter_distinct:
  "distinct rf \<Longrightarrow> remove1 q rf = filter (\<lambda>x. x \<noteq> q) rf"
  by (induction rf) (auto simp: filter_absent)

text \<open>
  C3, as the code has it. \<open>_add_recent\<close> puts the resolved path first, deletes the first
  earlier occurrence of it and keeps the first 10 entries: the result has at most 10
  entries, the resolved path at index 0 and the other entries in their previous order.
  When the list had no duplicates, the result has none, and no earlier occurrence of the
  path is left. Adding the path \<open>a\<close> to the list \<open>[a, b]\<close> gives \<open>[a, b]\<close>. Adding 11 paths
  that resolve to 11 distinct strings leaves exactly the 10 added last, the most recent
  first.
\<close>

theorem add_recent_front:
  "recent_files (fst (add_recent resolve dumps write_text p0 (st, f))) =
     take 10 (resolve p0 # remove1 (resolve p0) (recent_files st)) \<and>
   length (recent_files (fst (add_recent resolve dumps write_text p0 (st, f)))) \<le> 10 \<and>
   recent_files (fst (add_recent resolve dumps write_text p0 (st, f))) ! 0 = resolve p0 \<and>
   (distinct (recent_files st) \<longrightarrow>
      distinct (recent_files (fst (add_recent resolve dumps write_text p0 (st, f)))) \<and>
      recent_files (fst (add_recent resolve dumps write_text p0 (st, f))) =
        take 10 (resolve p0 # filter (\<lambda>q. q \<noteq> resolve p0) (recent_files st))) \<and>
   (recent_files st = [resolve p0, b] \<longrightarrow>
      recent_files (fst (add_recent resolve dumps write_text p0 (st, f))) = [resolve p0, b]) \<and>
   (length ps = 11 \<and> distinct (map resolve ps) \<longrightarrow>
      recent_files (fst (foldl (\<lambda>w p. add_recent resolve dumps write_text p w) (st, f) ps)) =
        take 10 (rev (map resolve ps)))"
proof (intro conjI impI)
  show eq: "recent_files (fst (add_recent resolve dumps write_text p0 (st, f))) =
      take 10 (resolve p0 # remove1 (resolve p0) (recent_files st))"
    by (simp add: recent_files_add_recent)
  show "length (recent_files (fst (add_recent resolve dumps write_text p0 (st, f)))) \<le> 10"
    by (simp add: eq)
  show "recent_files (fst (add_recent resolve dumps write_text p0 (st, f))) ! 0 = resolve p0"
    by (simp add: eq)
  show "recent_files (fst (add_recent resolve dumps write_text p0 (st, f))) = [resolve p0, b]"
    if "recent_files st = [resolve p0, b]"
    using that by (simp add: eq)
  show "distinct (recent_files (fst (add_recent resolve dumps write_text p0 (st, f))))"
    if "distinct (recent_files st)"
    using that unfolding eq by (rule distinct_add_recent)
  show "recent_files (fst (add_recent resolve dumps write_text p0 (st, f))) =
      take 10 (resolve p0 # filter (\<lambda>q. q \<noteq> resolve p0) (recent_files st))"
    if "distinct (recent_files st)"
    using that by (simp add: eq remove1_filter_distinct)
  show "recent_files (fst (foldl (\<lambda>w p. add_recent resolve dumps write_text p w) (st, f) ps)) =
      take 10 (rev (map resolve ps))"
    if "length ps = 11 \<and> distinct (map resolve ps)"
    using that by (intro foldl_add_recent_ten) simp_all
qed

theorem add_recent_front_witness:
  "distinct [[97::nat], [98]] \<and>
   recent_files (fst (add_recent (\<lambda>p. p) (\<lambda>v. Inl TypeError) (\<lambda>t f. (None, f)) [98]
       (defaults\<lparr>recent_files := [[97], [98]]\<rparr>, Missing))) = [[98], [97]] \<and>
   recent_files (fst (add_recent (\<lambda>p. p) (\<lambda>v. Inl TypeError) (\<lambda>t f. (None, f)) [97]
       (defaults\<lparr>recent_files := [[97], [98]]\<rparr>, Missing))) = [[97], [98]] \<and>
   recent_files (fst (foldl (\<lambda>w p. add_recent (\<lambda>p. p) (\<lambda>v. Inl TypeError) (\<lambda>t f. (None, f)) p w)
       (defaults\<lparr>recent_files := [[97], [98]]\<rparr>, Missing)
       [[1], [2], [3], [4], [5], [6], [7], [8], [9], [10], [11]])) =
     [[11], [10], [9], [8], [7], [6], [5], [4], [3], [2]]"
  using add_recent_front [of "\<lambda>p. p" "\<lambda>v. Inl TypeError" "\<lambda>t f. (None, f)" "[98]"
      "defaults\<lparr>recent_files := [[97], [98]]\<rparr>" Missing "[97]"
      "[[1], [2], [3], [4], [5], [6], [7], [8], [9], [10], [11]]"]
    add_recent_front [of "\<lambda>p. p" "\<lambda>v. Inl TypeError" "\<lambda>t f. (None, f)" "[97]"
      "defaults\<lparr>recent_files := [[97], [98]]\<rparr>" Missing "[98]"
      "[[1], [2], [3], [4], [5], [6], [7], [8], [9], [10], [11]]"]
  by simp

text \<open>
  C3 as stated, for every record, fails on a list that has a duplicate (\<open>load_state\<close>
  takes such a list from the settings file as it is): \<open>list.remove\<close> deletes one
  occurrence, and the result has the path twice.
\<close>

theorem add_recent_distinct_counterexample:
  "\<not> distinct (recent_files (fst (add_recent (\<lambda>p. p) (\<lambda>v. Inl TypeError) (\<lambda>t f. (None, f))
       (ascii ''/x'')
       (defaults\<lparr>recent_files := [ascii ''/x'', ascii ''/x'']\<rparr>, Missing))))"
  by (simp add: add_recent_def Let_def)

text \<open>
  C4, as the code has it. \<open>_open_recent\<close> checks the selected path only. When it does not
  exist, the entries equal to it are removed and all others are kept in their order,
  whether they exist or not; when it exists, nothing is removed. So every entry that is
  removed fails the existence check, but not every entry that fails it is removed.
\<close>

theorem open_recent_prunes_selected:
  "recent_files (fst (open_recent exists dumps write_text p0 (st, f))) =
     (if exists p0 then recent_files st else filter (\<lambda>p. p \<noteq> p0) (recent_files st)) \<and>
   (\<forall>q \<in> set (recent_files st).
      q \<notin> set (recent_files (fst (open_recent exists dumps write_text p0 (st, f)))) \<longrightarrow>
        q = p0 \<and> \<not> exists q) \<and>
   (\<forall>q \<in> set (recent_files st).
      q \<noteq> p0 \<longrightarrow> q \<in> set (recent_files (fst (open_recent exists dumps write_text p0 (st, f)))))"
  by (auto simp: open_recent_def Let_def)

theorem open_recent_prunes_selected_witness:
  "recent_files (fst (open_recent (\<lambda>p. p = [98]) (\<lambda>v. Inl TypeError) (\<lambda>t f. (None, f)) [97]
       (defaults\<lparr>recent_files := [[97], [98], [99]]\<rparr>, Missing))) = [[98], [99]] \<and>
   [97] \<in> set [[97::nat], [98], [99]] \<and>
   [97] \<notin> set (recent_files (fst (open_recent (\<lambda>p. p = [98]) (\<lambda>v. Inl TypeError)
       (\<lambda>t f. (None, f)) [97] (defaults\<lparr>recent_files := [[97], [98], [99]]\<rparr>, Missing)))) \<and>
   [99] \<in> set (recent_files (fst (open_recent (\<lambda>p. p = [98]) (\<lambda>v. Inl TypeError)
       (\<lambda>t f. (None, f)) [97] (defaults\<lparr>recent_files := [[97], [98], [99]]\<rparr>, Missing))))"
  using open_recent_prunes_selected [of "\<lambda>p. p = [98]" "\<lambda>v. Inl TypeError" "\<lambda>t f. (None, f)" "[97]"
      "defaults\<lparr>recent_files := [[97], [98], [99]]\<rparr>" Missing]
  by simp

text \<open>
  C4 as stated fails when an entry other than the selected one is missing: with \<open>/a\<close>
  and \<open>/b\<close> both missing and \<open>/a\<close> selected, \<open>/b\<close> stays in the list.
\<close>

theorem open_recent_prune_counterexample:
  "recent_files (fst (open_recent (\<lambda>p. False) (\<lambda>v. Inl TypeError) (\<lambda>t f. (None, f))
       (ascii ''/a'')
       (defaults\<lparr>recent_files := [ascii ''/a'', ascii ''/b'']\<rparr>, Missing))) = [ascii ''/b''] \<and>
   recent_files (fst (open_recent (\<lambda>p. False) (\<lambda>v. Inl TypeError) (\<lambda>t f. (None, f))
       (ascii ''/a'')
       (defaults\<lparr>recent_files := [ascii ''/a'', ascii ''/b'']\<rparr>, Missing))) \<noteq>
     filter (\<lambda>p. False) (recent_files (defaults\<lparr>recent_files := [ascii ''/a'', ascii ''/b'']\<rparr>))"
  by (simp add: open_recent_def Let_def ascii_def)

subsection \<open>Document tabs\<close>

lemma takeWhile_no_slash:
  "47 \<notin> set name \<Longrightarrow> takeWhile (\<lambda>c. c \<noteq> (47::nat)) (rev name) = rev name"
  by (auto simp: takeWhile_eq_all_conv)

lemma basename_plain: "47 \<notin> set name \<Longrightarrow> basename name = name"
  by (simp add: basename_def takeWhile_no_slash)

lemma basename_strips: "47 \<notin> set name \<Longrightarrow> basename (dir @ 47 # name) = name"
  by (simp add: basename_def takeWhile_tail takeWhile_no_slash)

text \<open>
  C5. The title is \<open>Untitled\<close> when the tab has no path (\<open>None\<close>, or the empty string,
  which \<open>if self.path\<close> treats alike), and otherwise the base name of the path, which is
  the path without its directory components; a space and the bullet follow exactly when
  the tab is dirty. A new tab is titled \<open>Untitled\<close>, after an edit \<open>Untitled\<close> with the
  marker, and after a successful save to \<open>/x/y/report.txt\<close> it is titled \<open>report.txt\<close>.
\<close>

theorem title_shape:
  "(path tab = None \<or> path tab = Some [] \<longrightarrow>
      title tab = ascii ''Untitled'' @ (if is_dirty tab then [32, 8226] else [])) \<and>
   (path tab = Some p \<and> p \<noteq> [] \<longrightarrow>
      title tab = basename p @ (if is_dirty tab then [32, 8226] else [])) \<and>
   (47 \<notin> set name \<longrightarrow> basename (dir @ 47 # name) = name \<and> basename name = name) \<and>
   title init_tab = ascii ''Untitled'' \<and>
   title (on_content_changed txt init_tab) = ascii ''Untitled'' @ [32, 8226] \<and>
   (write_text (ascii ''/x/y/report.txt'') (editor_text tab) = None \<longrightarrow>
      title (snd (save_to write_text (ascii ''/x/y/report.txt'') tab)) = ascii ''report.txt'')"
proof (intro conjI impI)
  show "title tab = ascii ''Untitled'' @ (if is_dirty tab then [32, 8226] else [])"
    if "path tab = None \<or> path tab = Some []"
    using that by (auto simp: title_def)
  show "title tab = basename p @ (if is_dirty tab then [32, 8226] else [])"
    if "path tab = Some p \<and> p \<noteq> []"
    using that by (simp add: title_def)
  show "basename (dir @ 47 # name) = name" if "47 \<notin> set name"
    using that by (rule basename_strips)
  show "basename name = name" if "47 \<notin> set name"
    using that by (rule basename_plain)
  show "title init_tab = ascii ''Untitled''"
    by (simp add: title_def init_tab_def is_dirty_def)
  show "title (on_content_changed txt init_tab) = ascii ''Untitled'' @ [32, 8226]"
    by (simp add: title_def init_tab_def is_dirty_def on_content_changed_def)
  show "title (snd (save_to write_text (ascii ''/x/y/report.txt'') tab)) = ascii ''report.txt''"
    if "write_text (ascii ''/x/y/report.txt'') (editor_text tab) = None"
    using that by (simp add: save_to_def title_def is_dirty_def basename_def ascii_def)
qed

theorem title_shape_witness:
  "title \<lparr>path = Some (ascii ''/x/y/report.txt''), editor_text = ascii ''hello'', modified = True\<rparr> =
     ascii ''report.txt'' @ [32, 8226] \<and>
   title \<lparr>path = None, editor_text = ascii ''hello'', modified = True\<rparr> =
     ascii ''Untitled'' @ [32, 8226] \<and>
   basename (ascii ''/x/y'' @ 47 # ascii ''report.txt'') = ascii ''report.txt'' \<and>
   title (snd (save_to (\<lambda>p c. None) (ascii ''/x/y/report.txt'')
     \<lparr>path = None, editor_text = ascii ''hello'', modified = True\<rparr>)) = ascii ''report.txt''"
  using title_shape [of "\<lparr>path = Some (ascii ''/x/y/report.txt''), editor_text = ascii ''hello'', modified = True\<rparr>"
      "ascii ''/x/y/report.txt''" "ascii ''report.txt''" "ascii ''/x/y''" "[]" "\<lambda>p c. None"]
    title_shape [of "\<lparr>path = None, editor_text = ascii ''hello'', modified = True\<rparr>"
      "ascii ''/x/y/report.txt''" "ascii ''report.txt''" "ascii ''/x/y''" "[]" "\<lambda>p c. None"]
  by (simp add: is_dirty_def ascii_def)

text \<open>
  C6. When reading fails in \<open>load_file\<close>, or writing fails in \<open>save_to\<close>, the exception
  reaches the caller and the tab is as it was: same path, same modified flag, same text.
\<close>

theorem failed_io_leaves_tab:
  "(read_text p = Inl e \<longrightarrow> load_file read_text p tab = (Some e, tab)) \<and>
   (write_text p (editor_text tab) = Some e \<longrightarrow> save_to write_text p tab = (Some e, tab))"
  by (simp add: load_file_def save_to_def)

theorem failed_io_leaves_tab_witness:
  "load_file (\<lambda>p. Inl FileNotFoundError) (ascii ''/nonexistent'') init_tab =
     (Some FileNotFoundError, init_tab) \<and>
   save_to (\<lambda>p c. Some PermissionError) (ascii ''/etc/passwd'')
     (on_content_changed (ascii ''hello'') init_tab) =
     (Some PermissionError, on_content_changed (ascii ''hello'') init_tab)"
  using failed_io_leaves_tab [of "\<lambda>p. Inl FileNotFoundError" "ascii ''/nonexistent''"
      FileNotFoundError init_tab "\<lambda>p c. Some PermissionError"]
    failed_io_leaves_tab [of "\<lambda>p. Inl FileNotFoundError" "ascii ''/etc/passwd''"
      PermissionError "on_content_changed (ascii ''hello'') init_tab" "\<lambda>p c. Some PermissionError"]
  by simp

text \<open>
  C7. A successful \<open>save_to\<close> sets the path and clears the modified flag (and leaves the
  text alone); a successful \<open>load_file\<close> sets the text and the path and clears the flag,
  so the title right after it is the bare name, with no marker. A new tab, edited to
  \<open>hello\<close> and saved to \<open>/tmp/note.txt\<close>, is titled \<open>note.txt\<close>, is not dirty and has the
  path \<open>/tmp/note.txt\<close>.
\<close>

theorem successful_io_sets_path:
  "(write_text p (editor_text tab) = None \<longrightarrow>
      fst (save_to write_text p tab) = None \<and>
      path (snd (save_to write_text p tab)) = Some p \<and>
      \<not> is_dirty (snd (save_to write_text p tab)) \<and>
      editor_text (snd (save_to write_text p tab)) = editor_text tab) \<and>
   (read_text p = Inr txt \<longrightarrow>
      fst (load_file read_text p tab) = None \<and>
      path (snd (load_file read_text p tab)) = Some p \<and>
      \<not> is_dirty (snd (load_file read_text p tab)) \<and>
      editor_text (snd (load_file read_text p tab)) = txt \<and>
      title (snd (load_file read_text p tab)) =
        (if p = [] then ascii ''Untitled'' else basename p)) \<and>
   (write_text (ascii ''/tmp/note.txt'') (ascii ''hello'') = None \<longrightarrow>
      title (snd (save_to write_text (ascii ''/tmp/note.txt'')
                    (on_content_changed (ascii ''hello'') init_tab))) = ascii ''note.txt'' \<and>
      \<not> is_dirty (snd (save_to write_text (ascii ''/tmp/note.txt'')
                    (on_content_changed (ascii ''hello'') init_tab))) \<and>
      path (snd (save_to write_text (ascii ''/tmp/note.txt'')
                    (on_content_changed (ascii ''hello'') init_tab))) = Some (ascii ''/tmp/note.txt''))"
proof (intro conjI impI)
  assume "write_text p (editor_text tab) = None"
  then have "save_to write_text p tab = (None, tab\<lparr>path := Some p, modified := False\<rparr>)"
    by (simp add: save_to_def)
  then show "fst (save_to write_text p tab) = None"
    and "path (snd (save_to write_text p tab)) = Some p"
    and "\<not> is_dirty (snd (save_to write_text p tab))"
    and "editor_text (snd (save_to write_text p tab)) = editor_text tab"
    by (simp_all add: is_dirty_def)
next
  assume "read_text p = Inr txt"
  then have l: "load_file read_text p tab =
      (None, tab\<lparr>editor_text := txt, path := Some p, modified := False\<rparr>)"
    by (simp add: load_file_def)
  then show "fst (load_file read_text p tab) = None"
    and "path (snd (load_file read_text p tab)) = Some p"
    and "\<not> is_dirty (snd (load_file read_text p tab))"
    and "editor_text (snd (load_file read_text p tab)) = txt"
    by (simp_all add: is_dirty_def)
  show "title (snd (load_file read_text p tab)) = (if p = [] then ascii ''Untitled'' else basename p)"
    by (simp add: l title_def is_dirty_def)
next
  assume w: "write_text (ascii ''/tmp/note.txt'') (ascii ''hello'') = None"
  have "editor_text (on_content_changed (ascii ''hello'') init_tab) = ascii ''hello''"
    by (simp add: on_content_changed_def)
  with w have s: "save_to write_text (ascii ''/tmp/note.txt'') (on_content_changed (ascii ''hello'') init_tab) =
      (None, \<lparr>path = Some (ascii ''/tmp/note.txt''), editor_text = ascii ''hello'', modified = False\<rparr>)"
    by (simp add: save_to_def on_content_changed_def init_tab_def)
  show "title (snd (save_to write_text (ascii ''/tmp/note.txt'')
                    (on_content_changed (ascii ''hello'') init_tab))) = ascii ''note.txt''"
    unfolding s by (simp add: title_def is_dirty_def basename_def ascii_def)
  show "\<not> is_dirty (snd (save_to write_text (ascii ''/tmp/note.txt'')
                    (on_content_changed (ascii ''hello'') init_tab)))"
    unfolding s by (simp add: is_dirty_def)
  show "path (snd (save_to write_text (ascii ''/tmp/note.txt'')
                    (on_content_changed (ascii ''hello'') init_tab))) = Some (ascii ''/tmp/note.txt'')"
    unfolding s by simp
qed

theorem successful_io_sets_path_witness:
  "path (snd (save_to (\<lambda>p c. None) (ascii ''/tmp/note.txt'')
            (on_content_changed (ascii ''hello'') init_tab))) = Some (ascii ''/tmp/note.txt'') \<and>
   title (snd (save_to (\<lambda>p c. None) (ascii ''/tmp/note.txt'')
            (on_content_changed (ascii ''hello'') init_tab))) = ascii ''note.txt'' \<and>
   \<not> is_dirty (snd (save_to (\<lambda>p c. None) (ascii ''/tmp/note.txt'')
            (on_content_changed (ascii ''hello'') init_tab))) \<and>
   title (snd (load_file (\<lambda>p. Inr (ascii ''hello'')) (ascii ''/tmp/note.txt'')
            (on_content_changed (ascii ''draft'') init_tab))) = ascii ''note.txt''"
  using successful_io_sets_path [of "\<lambda>p c. None" "ascii ''/tmp/note.txt''"
      "on_content_changed (ascii ''hello'') init_tab" "\<lambda>p. Inr (ascii ''hello'')" "ascii ''hello''"]
    successful_io_sets_path [of "\<lambda>p c. None" "ascii ''/tmp/note.txt''"
      "on_content_changed (ascii ''draft'') init_tab" "\<lambda>p. Inr (ascii ''hello'')" "ascii ''hello''"]
  by (simp add: ascii_def basename_def)

end
